theory Spec2Isabelle
  imports Complex_Main "HOL-Library.Multiset"
begin

section \<open>Arbitrage finder (app.py)\<close>



subsection \<open>The string methods the script calls\<close>

text \<open>\<open>str.lower\<close>, on the ASCII letters (a \<open>char\<close> is a byte).\<close>

definition lower_char :: "char \<Rightarrow> char" where
  "lower_char c =
     (let n = (of_char c :: nat) in if 65 \<le> n \<and> n \<le> 90 then char_of (n + 32) else c)"

definition lower :: "string \<Rightarrow> string" where
  "lower s = map lower_char s"

text \<open>
  \<open>str.split()\<close> with no argument: the runs of non-whitespace characters, where
  whitespace is tab, line feed, vertical tab, form feed, carriage return, the four
  separators 28 to 31 and the space.
\<close>

definition is_space :: "char \<Rightarrow> bool" where
  "is_space c = (let n = (of_char c :: nat) in (9 \<le> n \<and> n \<le> 13) \<or> (28 \<le> n \<and> n \<le> 32))"

fun split_from :: "string \<Rightarrow> string \<Rightarrow> string list" where
  "split_from cur [] = (if cur = [] then [] else [rev cur])"
| "split_from cur (c # cs) =
     (if is_space c then (if cur = [] then split_from [] cs else rev cur # split_from [] cs)
      else split_from (c # cur) cs)"

definition split :: "string \<Rightarrow> string list" where
  "split s = split_from [] s"


subsection \<open>\<open>ArbitrageDetector._calculate_correlation_score\<close>\<close>





subsection \<open>\<open>ArbitrageDetector.detect_arbitrage_opportunities\<close>\<close>





subsection \<open>The two markets of the specification's arbitrage scenario\<close>



section \<open>Lead scoring (python\_data\_functions/lead\_scoring.py)\<close>

subsection \<open>Float values\<close>

text \<open>
  A float of the tables: a number (an exact rational, rounding left out), one of the two
  infinities (\<open>float('inf')\<close> is a bin edge, and a division by zero yields one), or NaN,
  the missing value of pandas. Signed zeros are not told apart.
\<close>

datatype fval = Fin rat | PosInf | NegInf | NaN

text \<open>Comparisons: every comparison with NaN is false.\<close>

fun flt :: "fval \<Rightarrow> fval \<Rightarrow> bool" where
  "flt NaN _ = False"
| "flt _ NaN = False"
| "flt (Fin x) (Fin y) = (x < y)"
| "flt (Fin _) PosInf = True"
| "flt (Fin _) NegInf = False"
| "flt PosInf _ = False"
| "flt NegInf NegInf = False"
| "flt NegInf _ = True"

definition fle :: "fval \<Rightarrow> fval \<Rightarrow> bool" where
  "fle a b = (a \<noteq> NaN \<and> (flt a b \<or> a = b))"

fun fadd :: "fval \<Rightarrow> fval \<Rightarrow> fval" where
  "fadd NaN _ = NaN"
| "fadd _ NaN = NaN"
| "fadd (Fin x) (Fin y) = Fin (x + y)"
| "fadd (Fin _) PosInf = PosInf"
| "fadd (Fin _) NegInf = NegInf"
| "fadd PosInf NegInf = NaN"
| "fadd PosInf _ = PosInf"
| "fadd NegInf PosInf = NaN"
| "fadd NegInf _ = NegInf"

fun fneg :: "fval \<Rightarrow> fval" where
  "fneg (Fin x) = Fin (- x)"
| "fneg PosInf = NegInf"
| "fneg NegInf = PosInf"
| "fneg NaN = NaN"

fun fmul :: "fval \<Rightarrow> fval \<Rightarrow> fval" where
  "fmul NaN _ = NaN"
| "fmul _ NaN = NaN"
| "fmul (Fin x) (Fin y) = Fin (x * y)"
| "fmul (Fin x) PosInf = (if x = 0 then NaN else if 0 < x then PosInf else NegInf)"
| "fmul (Fin x) NegInf = (if x = 0 then NaN else if 0 < x then NegInf else PosInf)"
| "fmul PosInf (Fin y) = (if y = 0 then NaN else if 0 < y then PosInf else NegInf)"
| "fmul NegInf (Fin y) = (if y = 0 then NaN else if 0 < y then NegInf else PosInf)"
| "fmul PosInf PosInf = PosInf"
| "fmul PosInf NegInf = NegInf"
| "fmul NegInf PosInf = NegInf"
| "fmul NegInf NegInf = PosInf"

text \<open>Float division as numpy does it on arrays: a division by zero is an infinity or NaN.\<close>

fun fdiv :: "fval \<Rightarrow> fval \<Rightarrow> fval" where
  "fdiv NaN _ = NaN"
| "fdiv _ NaN = NaN"
| "fdiv (Fin x) (Fin y) =
     (if y \<noteq> 0 then Fin (x / y)
      else if x = 0 then NaN else if 0 < x then PosInf else NegInf)"
| "fdiv (Fin _) PosInf = Fin 0"
| "fdiv (Fin _) NegInf = Fin 0"
| "fdiv PosInf (Fin y) = (if 0 \<le> y then PosInf else NegInf)"
| "fdiv NegInf (Fin y) = (if 0 \<le> y then NegInf else PosInf)"
| "fdiv PosInf _ = NaN"
| "fdiv NegInf _ = NaN"

text \<open>\<open>Series.fillna(v)\<close>, \<open>Series.clip(upper=u)\<close> and \<open>Series.clip(l, u)\<close> on one value; NaN
  stays NaN under \<open>clip\<close>.\<close>

definition fillna :: "fval \<Rightarrow> fval \<Rightarrow> fval" where
  "fillna v x = (if x = NaN then v else x)"

definition clip_upper :: "fval \<Rightarrow> fval \<Rightarrow> fval" where
  "clip_upper u x = (if flt u x then u else x)"

definition clip :: "fval \<Rightarrow> fval \<Rightarrow> fval \<Rightarrow> fval" where
  "clip l u x = (if flt x l then l else if flt u x then u else x)"

text \<open>\<open>boolean.astype(int)\<close>\<close>

definition of_bool_f :: "bool \<Rightarrow> fval" where
  "of_bool_f b = Fin (if b then 1 else 0)"

subsection \<open>Series with the default index\<close>

text \<open>
  A Series of floats is the list of its values, labelled 0, 1, ... (the RangeIndex that
  \<open>read_csv\<close> and \<open>merge\<close> give). Adding two Series aligns them on the labels: the
  result has the union of the labels, and NaN where one side has no value.
\<close>

fun series_add :: "fval list \<Rightarrow> fval list \<Rightarrow> fval list" where
  "series_add [] ys = map (\<lambda>_. NaN) ys"
| "series_add xs [] = map (\<lambda>_. NaN) xs"
| "series_add (x # xs) (y # ys) = fadd x y # series_add xs ys"

text \<open>Assigning a Series as a column of a frame of \<open>n\<close> rows keeps the labels of the frame.\<close>

fun reindex :: "nat \<Rightarrow> fval list \<Rightarrow> fval list" where
  "reindex 0 xs = []"
| "reindex (Suc n) [] = NaN # reindex n []"
| "reindex (Suc n) (x # xs) = x # reindex n xs"

subsection \<open>\<open>pandas.cut\<close> with a list of bin edges and a list of labels\<close>

text \<open>
  The bins are the intervals \<open>(lo, hi]\<close> between neighbouring edges, closed on the right
  (\<open>right=True\<close> is the default); with \<open>include_lowest=True\<close> the first interval also
  holds its left edge. A value in no bin, and NaN, get no label.
\<close>

fun cut_bins :: "fval list \<Rightarrow> 'a list \<Rightarrow> fval \<Rightarrow> 'a option" where
  "cut_bins (lo # hi # bins) (l # labels) x =
     (if flt lo x \<and> fle x hi then Some l else cut_bins (hi # bins) labels x)"
| "cut_bins _ _ _ = None"

definition pd_cut :: "bool \<Rightarrow> fval list \<Rightarrow> 'a list \<Rightarrow> fval \<Rightarrow> 'a option" where
  "pd_cut include_lowest bins labels x =
     (if include_lowest \<and> x \<noteq> NaN \<and> bins \<noteq> [] \<and> labels \<noteq> [] \<and> x = hd bins
      then Some (hd labels) else cut_bins bins labels x)"

subsection \<open>Errors\<close>

datatype error =
    AttributeError
  | KeyError string
  | TypeError
  | ValueError
  | CsvError
  | OSError

text \<open>\<open>Categorical.astype(int)\<close> raises ValueError when a value has no label;
  \<open>astype(float)\<close> turns a missing label into NaN.\<close>

fun astype_int :: "rat option list \<Rightarrow> error + fval list" where
  "astype_int [] = Inr []"
| "astype_int (None # xs) = Inl ValueError"
| "astype_int (Some l # xs) =
     (case astype_int xs of Inl e \<Rightarrow> Inl e | Inr ys \<Rightarrow> Inr (Fin l # ys))"

definition astype_float :: "rat option list \<Rightarrow> fval list" where
  "astype_float xs = map (\<lambda>x. case x of None \<Rightarrow> NaN | Some l \<Rightarrow> Fin l) xs"

subsection \<open>Composite score and lead tier\<close>

definition scoring_weights :: "(string \<times> rat) list" where
  "scoring_weights =
     [(''growth_potential'', 25 / 100),
      (''legitimacy'', 20 / 100),
      (''safety_compliance'', 20 / 100),
      (''contact_quality'', 15 / 100),
      (''specialization_value'', 10 / 100),
      (''company_recency'', 10 / 100)]"

text \<open>
  \<open>sum(component_scores[component] * weight for component, weight in ...items())\<close>:
  Python's \<open>sum\<close> starts from the integer 0 and adds the terms from left to right; the
  first addition broadcasts the 0 over the Series, the later ones align two Series.
\<close>

datatype pyvalue = Scalar fval | Series "fval list"

fun add_value :: "pyvalue \<Rightarrow> pyvalue \<Rightarrow> pyvalue" where
  "add_value (Scalar a) (Scalar b) = Scalar (fadd a b)"
| "add_value (Scalar a) (Series ys) = Series (map (fadd a) ys)"
| "add_value (Series xs) (Scalar b) = Series (map (\<lambda>x. fadd x b) xs)"
| "add_value (Series xs) (Series ys) = Series (series_add xs ys)"

fun weighted_sum ::
  "(string \<times> fval list) list \<Rightarrow> pyvalue \<Rightarrow> (string \<times> rat) list \<Rightarrow> error + pyvalue" where
  "weighted_sum component_scores acc [] = Inr acc"
| "weighted_sum component_scores acc ((component, weight) # rest) =
     (case map_of component_scores component of
        None \<Rightarrow> Inl (KeyError component)
      | Some s \<Rightarrow>
          weighted_sum component_scores
            (add_value acc (Series (map (\<lambda>x. fmul x (Fin weight)) s))) rest)"

definition composite_score :: "(string \<times> fval list) list \<Rightarrow> error + pyvalue" where
  "composite_score component_scores =
     weighted_sum component_scores (Scalar (Fin 0)) scoring_weights"

text \<open>\<open>scored_df['composite_score'] = ...\<close> on a frame of \<open>n\<close> rows.\<close>

fun as_column :: "nat \<Rightarrow> pyvalue \<Rightarrow> fval list" where
  "as_column n (Scalar a) = replicate n a"
| "as_column n (Series xs) = reindex n xs"

text \<open>\<open>pd.cut(composite, bins=[0, 2, 3.5, 5, inf], labels=[...])\<close>, with the defaults
  \<open>right=True\<close> and \<open>include_lowest=False\<close>.\<close>

definition lead_tier_of :: "fval \<Rightarrow> string option" where
  "lead_tier_of composite =
     pd_cut False [Fin 0, Fin 2, Fin (35 / 10), Fin 5, PosInf]
       [''Low Priority'', ''Medium Priority'', ''High Priority'', ''Top Tier''] composite"

subsection \<open>Data frames\<close>

text \<open>
  A cell holds a float (NaN for a missing value) or a text. A column has a dtype: \<open>object\<close>
  (what \<open>read_csv\<close> gives a column that holds text) or a numeric one (int64, float64). A
  frame is the list of its columns with their dtypes, and its rows in order, labelled
  0, 1, ...; a row gives each column's cell.
\<close>

datatype cell = Num fval | Str string

datatype dtype = object_dtype | numeric_dtype

record dataframe =
  columns :: "(string \<times> dtype) list"
  rows :: "(string \<Rightarrow> cell) list"

type_synonym series = "dtype \<times> cell list"

definition column_names :: "dataframe \<Rightarrow> string list" where
  "column_names df = map fst (columns df)"

text \<open>\<open>df.get(name, default)\<close>; \<open>None\<close> stands for "the default was returned".\<close>

definition df_get :: "dataframe \<Rightarrow> string \<Rightarrow> series option" where
  "df_get df name =
     (case map_of (columns df) name of
        None \<Rightarrow> None
      | Some t \<Rightarrow> Some (t, map (\<lambda>r. r name) (rows df)))"

text \<open>\<open>df[name]\<close> raises KeyError for a column that is not there.\<close>

definition df_col :: "dataframe \<Rightarrow> string \<Rightarrow> error + series" where
  "df_col df name =
     (case df_get df name of None \<Rightarrow> Inl (KeyError name) | Some s \<Rightarrow> Inr s)"

text \<open>\<open>df[[name1, name2, ...]]\<close>: the frame of these columns, KeyError when one is missing.\<close>

fun select_columns :: "(string \<times> dtype) list \<Rightarrow> string list \<Rightarrow> error + (string \<times> dtype) list" where
  "select_columns cols [] = Inr []"
| "select_columns cols (name # names) =
     (case map_of cols name of
        None \<Rightarrow> Inl (KeyError name)
      | Some t \<Rightarrow>
          (case select_columns cols names of
             Inl e \<Rightarrow> Inl e
           | Inr rest \<Rightarrow> Inr ((name, t) # rest)))"

definition df_select :: "dataframe \<Rightarrow> string list \<Rightarrow> error + dataframe" where
  "df_select df names =
     (case select_columns (columns df) names of
        Inl e \<Rightarrow> Inl e
      | Inr cols \<Rightarrow> Inr \<lparr> columns = cols, rows = rows df \<rparr>)"

text \<open>
  \<open>df[name] = values\<close>: the column is replaced where it stands, or appended as the last
  column; row \<open>i\<close> gets the \<open>i\<close>-th value.
\<close>

fun set_cells :: "string \<Rightarrow> (string \<Rightarrow> cell) list \<Rightarrow> cell list \<Rightarrow> (string \<Rightarrow> cell) list" where
  "set_cells name (r # rs) (v # vs) = r(name := v) # set_cells name rs vs"
| "set_cells name (r # rs) [] = r(name := Num NaN) # set_cells name rs []"
| "set_cells name [] vs = []"

definition set_column :: "dataframe \<Rightarrow> string \<Rightarrow> dtype \<Rightarrow> cell list \<Rightarrow> dataframe" where
  "set_column df name t vs =
     \<lparr> columns =
         (if name \<in> set (column_names df)
          then map (\<lambda>(c, u). if c = name then (c, t) else (c, u)) (columns df)
          else columns df @ [(name, t)]),
       rows = set_cells name (rows df) vs \<rparr>"

subsection \<open>\<open>pd.to\_numeric(..., errors='coerce')\<close> and the \<open>.str\<close> accessor\<close>

text \<open>
  \<open>to_numeric\<close> keeps a number and reads a text as a float, NaN when it is not one. Which
  texts are floats is the library's business: \<open>to_float\<close> is that reading, a parameter.
\<close>

definition to_numeric :: "(string \<Rightarrow> fval) \<Rightarrow> series \<Rightarrow> fval list" where
  "to_numeric to_float s =
     map (\<lambda>c. case c of Num x \<Rightarrow> x | Str t \<Rightarrow> to_float t) (snd s)"

text \<open>
  \<open>series.str\<close> raises AttributeError ("Can only use .str accessor with string values")
  unless the column has dtype \<open>object\<close> and holds a text or nothing but missing values. The
  string methods give NaN for a cell that is not a text.
\<close>

definition is_str :: "cell \<Rightarrow> bool" where
  "is_str c = (case c of Str _ \<Rightarrow> True | Num _ \<Rightarrow> False)"

definition str_accessor :: "series \<Rightarrow> error + string option list" where
  "str_accessor s =
     (if fst s = object_dtype \<and> (list_ex is_str (snd s) \<or> list_all (\<lambda>c. c = Num NaN) (snd s))
      then Inr (map (\<lambda>c. case c of Str t \<Rightarrow> Some t | Num _ \<Rightarrow> None) (snd s))
      else Inl AttributeError)"

text \<open>\<open>series.str.lower().fillna('')\<close>, \<open>series.str.strip().fillna('')\<close> and
  \<open>series.str.replace(r'\D', '', regex=True).fillna('')\<close> after the accessor.\<close>

definition strip :: "string \<Rightarrow> string" where
  "strip s = rev (dropWhile is_space (rev (dropWhile is_space s)))"

definition is_digit :: "char \<Rightarrow> bool" where
  "is_digit c = (let n = (of_char c :: nat) in 48 \<le> n \<and> n \<le> 57)"

definition str_map_fillna :: "(string \<Rightarrow> string) \<Rightarrow> string option list \<Rightarrow> string list" where
  "str_map_fillna f xs = map (\<lambda>x. case x of None \<Rightarrow> [] | Some t \<Rightarrow> f t) xs"

text \<open>
  \<open>series.str.contains(pattern)\<close> for the patterns of this file, which are words joined
  by \<open>|\<close>: the text contains one of the words.
\<close>

fun starts_with :: "string \<Rightarrow> string \<Rightarrow> bool" where
  "starts_with [] s = True"
| "starts_with (k # ks) [] = False"
| "starts_with (k # ks) (c # cs) = (k = c \<and> starts_with ks cs)"

fun contains_word :: "string \<Rightarrow> string \<Rightarrow> bool" where
  "contains_word k [] = (k = [])"
| "contains_word k (c # cs) = (starts_with k (c # cs) \<or> contains_word k cs)"

definition str_contains :: "string list \<Rightarrow> string \<Rightarrow> bool" where
  "str_contains words s = list_ex (\<lambda>k. contains_word k s) words"

definition ends_with :: "string \<Rightarrow> string \<Rightarrow> bool" where
  "ends_with k s = starts_with (rev k) (rev s)"

subsection \<open>\<open>left.merge(right, on=key, how='left')\<close>\<close>

text \<open>
  Every row of the left frame, in order, paired with each row of the right frame that has
  the same key (missing keys match each other), in the order of the right frame; a left row
  with no partner is kept once, with missing values in the columns of the right frame.
  Merging a text key column with a numeric one raises ValueError.
\<close>

definition merge_row :: "string \<Rightarrow> (string \<Rightarrow> cell) \<Rightarrow> (string \<Rightarrow> cell) list \<Rightarrow> (string \<Rightarrow> cell) list" where
  "merge_row key l rs =
     (case filter (\<lambda>r. r key = l key) rs of
        [] \<Rightarrow> [(\<lambda>_. Num NaN)(key := l key)]
      | m # ms \<Rightarrow> map (\<lambda>r. r(key := l key)) (m # ms))"

definition key_kinds_clash :: "series \<Rightarrow> series \<Rightarrow> bool" where
  "key_kinds_clash a b =
     ((fst a = object_dtype \<and> fst b = numeric_dtype \<and> list_ex is_str (snd a))
      \<or> (fst a = numeric_dtype \<and> fst b = object_dtype \<and> list_ex is_str (snd b)))"

definition merge_left :: "dataframe \<Rightarrow> dataframe \<Rightarrow> string \<Rightarrow> error + dataframe" where
  "merge_left left right key =
     (case df_col left key of
        Inl e \<Rightarrow> Inl e
      | Inr lk \<Rightarrow>
          (case df_col right key of
             Inl e \<Rightarrow> Inl e
           | Inr rk \<Rightarrow>
               if key_kinds_clash lk rk then Inl ValueError
               else Inr \<lparr> columns = columns left @ filter (\<lambda>(c, t). c \<noteq> key) (columns right),
                          rows = concat (map (\<lambda>l. merge_row key l (rows right)) (rows left)) \<rparr>))"

text \<open>\<open>sms_df is None or 'dot_number' not in sms_df.columns\<close>\<close>

definition no_enrichment :: "dataframe option \<Rightarrow> bool" where
  "no_enrichment df =
     (case df of None \<Rightarrow> True | Some d \<Rightarrow> ''dot_number'' \<notin> set (column_names d))"

subsection \<open>What the scorer takes from its libraries and its clock\<close>

text \<open>
  \<open>to_float\<close> is the reading of a text as a float by \<open>pd.to_numeric\<close>; \<open>days_since\<close> is
  \<open>(pd.Timestamp.now() - pd.to_datetime(cell, errors='coerce')).days\<close>, with \<open>None\<close> for a
  cell that is no date; \<open>argsort\<close> is numpy's \<open>argsort(kind='quicksort')\<close>, which
  \<open>sort_values\<close> calls.
\<close>

record env =
  to_float :: "string \<Rightarrow> fval"
  days_since :: "cell \<Rightarrow> int option"
  argsort :: "fval list \<Rightarrow> nat list"

text \<open>The cells of a column of a frame, whatever the frame says about the column.\<close>

definition cells :: "dataframe \<Rightarrow> string \<Rightarrow> series" where
  "cells df name =
     ((case map_of (columns df) name of None \<Rightarrow> object_dtype | Some t \<Rightarrow> t),
      map (\<lambda>r. r name) (rows df))"

text \<open>
  \<open>df.get(name, '').str.method().fillna('')\<close>: with the column missing, \<open>get\<close> returns the
  default \<open>''\<close>, a Python string, which has no attribute \<open>str\<close>.
\<close>

definition text_column :: "(string \<Rightarrow> string) \<Rightarrow> dataframe \<Rightarrow> string \<Rightarrow> error + string list" where
  "text_column f df name =
     (case df_get df name of
        None \<Rightarrow> Inl AttributeError
      | Some s \<Rightarrow>
          (case str_accessor s of
             Inl e \<Rightarrow> Inl e
           | Inr xs \<Rightarrow> Inr (str_map_fillna f xs)))"

text \<open>
  \<open>pd.to_numeric(df.get(name, 0), errors='coerce').fillna(v)\<close>: with the column missing,
  \<open>to_numeric\<close> returns the default 0 as it is, an integer, which has no attribute
  \<open>fillna\<close>.
\<close>

definition numeric_column :: "env \<Rightarrow> dataframe \<Rightarrow> string \<Rightarrow> fval \<Rightarrow> error + fval list" where
  "numeric_column ev df name v =
     (case df_get df name of
        None \<Rightarrow> Inl AttributeError
      | Some s \<Rightarrow> Inr (map (fillna v) (to_numeric (to_float ev) s)))"

subsection \<open>\<open>FMCALeadScorer._calculate_growth_score\<close>\<close>

definition fleet_scores :: "env \<Rightarrow> dataframe \<Rightarrow> error + fval list" where
  "fleet_scores ev census_df =
     (case numeric_column ev census_df ''fleet_size'' (Fin 0) of
        Inl e \<Rightarrow> Inl e
      | Inr fleet_size \<Rightarrow>
          astype_int
            (map (pd_cut True [Fin 0, Fin 1, Fin 5, Fin 10, Fin 20, Fin 50, PosInf]
                    [0, 1, 2, 3, 4, 5]) fleet_size))"

definition utilization_growth :: "env \<Rightarrow> dataframe \<Rightarrow> fval list \<Rightarrow> error + fval list" where
  "utilization_growth ev merged fleet =
     (let power_units = map (fillna (Fin 0)) (to_numeric (to_float ev) (cells merged ''power_units''));
          drivers = map (fillna (Fin 1)) (to_numeric (to_float ev) (cells merged ''drivers''));
          utilization_ratio = map2 fdiv power_units drivers
      in case astype_int
                (map (pd_cut True [Fin 0, Fin (15 / 10), Fin 2, PosInf] [0, 1, 2])
                   utilization_ratio) of
           Inl e \<Rightarrow> Inl e
         | Inr utilization_scores \<Rightarrow>
             (let vmt = map (fillna (Fin 0)) (to_numeric (to_float ev) (cells merged ''vmt''));
                  avg_vmt = map2 fdiv vmt (map (\<lambda>x. if x = Fin 0 then Fin 1 else x) power_units);
                  vmt_scores = map (\<lambda>x. of_bool_f (fle (Fin 50000) x)) avg_vmt
              in Inr (map (clip_upper (Fin 5))
                        (series_add (series_add fleet utilization_scores) vmt_scores))))"

definition calculate_growth_score :: "env \<Rightarrow> dataframe \<Rightarrow> dataframe option \<Rightarrow> error + fval list" where
  "calculate_growth_score ev census_df sms_df =
     (case fleet_scores ev census_df of
        Inl e \<Rightarrow> Inl e
      | Inr fleet \<Rightarrow>
          (case sms_df of
             None \<Rightarrow> Inr fleet
           | Some sms \<Rightarrow>
               if ''dot_number'' \<notin> set (column_names sms) then Inr fleet
               else
                 (case df_select census_df [''dot_number''] of
                    Inl e \<Rightarrow> Inl e
                  | Inr left \<Rightarrow>
                      (case df_select sms [''dot_number'', ''power_units'', ''drivers'', ''vmt''] of
                         Inl e \<Rightarrow> Inl e
                       | Inr right \<Rightarrow>
                           (case merge_left left right ''dot_number'' of
                              Inl e \<Rightarrow> Inl e
                            | Inr merged \<Rightarrow> utilization_growth ev merged fleet)))))"

subsection \<open>\<open>FMCALeadScorer._calculate_legitimacy_score\<close>\<close>

definition base_scores :: "dataframe \<Rightarrow> error + fval list" where
  "base_scores census_df =
     (case text_column lower census_df ''entity_type'' of
        Inl e \<Rightarrow> Inl e
      | Inr entity_type \<Rightarrow>
          (case text_column lower census_df ''carrier_operation'' of
             Inl e \<Rightarrow> Inl e
           | Inr operation \<Rightarrow>
               (let base = replicate (length (rows census_df)) (Fin 3);
                    base = series_add base
                             (map2 (\<lambda>t p. of_bool_f (str_contains [''carrier''] t
                                                      \<or> str_contains [''carrier''] p))
                                entity_type operation);
                    base = series_add base
                             (map2 (\<lambda>t p. of_bool_f (str_contains [''broker''] t
                                                      \<or> str_contains [''broker''] p))
                                entity_type operation)
                in Inr base)))"

definition licensing_scores :: "env \<Rightarrow> dataframe \<Rightarrow> fval list \<Rightarrow> error + fval list" where
  "licensing_scores ev merged base =
     (let authority_scores = replicate (length (rows merged)) (Fin 0)
      in case text_column lower merged ''authority_status'' of
           Inl e \<Rightarrow> Inl e
         | Inr authority_status \<Rightarrow>
             (let authority_scores =
                    series_add authority_scores
                      (map (\<lambda>t. of_bool_f (str_contains [''active''] t)) authority_status);
                  authority_scores =
                    series_add authority_scores
                      (map (\<lambda>t. fneg (fmul (of_bool_f (str_contains [''revoked'', ''suspended''] t))
                                         (Fin 2))) authority_status);
                  bond_scores = replicate (length (rows merged)) (Fin 0)
              in case text_column lower merged ''bond_status'' of
                   Inl e \<Rightarrow> Inl e
                 | Inr bond_status \<Rightarrow>
                     (let bond_scores =
                            series_add bond_scores
                              (map (\<lambda>t. of_bool_f (str_contains [''active'', ''valid''] t))
                                 bond_status)
                      in case numeric_column ev merged ''bond_amount'' (Fin 0) of
                           Inl e \<Rightarrow> Inl e
                         | Inr bond_amount \<Rightarrow>
                             (let bond_scores =
                                    series_add bond_scores
                                      (map (\<lambda>x. of_bool_f (fle (Fin 75000) x)) bond_amount)
                              in Inr (map (clip (Fin 0) (Fin 5))
                                        (series_add (series_add base authority_scores)
                                           bond_scores))))))"

definition calculate_legitimacy_score :: "env \<Rightarrow> dataframe \<Rightarrow> dataframe option \<Rightarrow> error + fval list" where
  "calculate_legitimacy_score ev census_df li_df =
     (case base_scores census_df of
        Inl e \<Rightarrow> Inl e
      | Inr base \<Rightarrow>
          (case li_df of
             None \<Rightarrow> Inr (map (clip (Fin 0) (Fin 5)) base)
           | Some li \<Rightarrow>
               if ''dot_number'' \<notin> set (column_names li)
               then Inr (map (clip (Fin 0) (Fin 5)) base)
               else
                 (case df_select census_df [''dot_number''] of
                    Inl e \<Rightarrow> Inl e
                  | Inr left \<Rightarrow>
                      (case df_select li [''dot_number'', ''authority_status'', ''bond_status'',
                                          ''bond_amount''] of
                         Inl e \<Rightarrow> Inl e
                       | Inr right \<Rightarrow>
                           (case merge_left left right ''dot_number'' of
                              Inl e \<Rightarrow> Inl e
                            | Inr merged \<Rightarrow> licensing_scores ev merged base)))))"

subsection \<open>\<open>FMCALeadScorer._calculate_safety_score\<close>\<close>

definition safety_basics :: "(string \<times> rat) list" where
  "safety_basics =
     [(''Unsafe Driving'', 25 / 100),
      (''Hours of Service Compliance'', 20 / 100),
      (''Vehicle Maintenance'', 20 / 100),
      (''Controlled Substances/Alcohol'', 15 / 100),
      (''Hazardous Materials Compliance'', 10 / 100),
      (''Driver Fitness'', 10 / 100)]"

definition replace_char :: "char \<Rightarrow> char \<Rightarrow> string \<Rightarrow> string" where
  "replace_char a b s = map (\<lambda>c. if c = a then b else c) s"

text \<open>\<open>f"{basic.lower().replace(' ', '_')}_score"\<close>\<close>

definition basic_column :: "string \<Rightarrow> string" where
  "basic_column basic = replace_char (CHR '' '') (CHR ''_'') (lower basic) @ ''_score''"

text \<open>\<open>frame[columns].apply(pd.to_numeric, errors='coerce').mean(axis=1)\<close> in one row: the
  mean of the values that are not missing, NaN when all are.\<close>

definition row_mean :: "env \<Rightarrow> string list \<Rightarrow> (string \<Rightarrow> cell) \<Rightarrow> fval" where
  "row_mean ev names r =
     (let vals = filter (\<lambda>x. x \<noteq> NaN)
                   (map (\<lambda>c. case r c of Num x \<Rightarrow> x | Str t \<Rightarrow> to_float ev t) names)
      in if vals = [] then NaN
         else fdiv (foldl fadd (Fin 0) vals) (Fin (of_nat (length vals))))"

definition rating_scores :: "env \<Rightarrow> dataframe \<Rightarrow> fval list \<Rightarrow> error + fval list" where
  "rating_scores ev merged base =
     (let safety_scores = replicate (length (rows merged)) (Fin 0)
      in case text_column lower merged ''safety_rating'' of
           Inl e \<Rightarrow> Inl e
         | Inr safety_rating \<Rightarrow>
             (let safety_scores =
                    series_add safety_scores
                      (map (\<lambda>t. fmul (of_bool_f (str_contains [''unsatisfactory''] t)) (Fin 2))
                         safety_rating);
                  safety_scores =
                    series_add safety_scores
                      (map (\<lambda>t. of_bool_f (str_contains [''conditional''] t)) safety_rating);
                  basic_columns = filter (contains_word ''_score'') (column_names merged);
                  safety_scores =
                    (if basic_columns \<noteq> [] then
                       (let basic_scores =
                              map (\<lambda>r. fillna (Fin 0) (row_mean ev basic_columns r)) (rows merged);
                            safety_scores =
                              series_add safety_scores
                                (map (\<lambda>x. of_bool_f (fle (Fin 3) x)) basic_scores)
                        in series_add safety_scores
                             (map (\<lambda>x. fmul (of_bool_f (fle (Fin 2) x \<and> flt x (Fin 3)))
                                          (Fin (5 / 10))) basic_scores))
                     else safety_scores)
              in case numeric_column ev merged ''total_inspections'' (Fin 0) of
                   Inl e \<Rightarrow> Inl e
                 | Inr inspections \<Rightarrow>
                     (let inspection_scores =
                            astype_float
                              (map (pd_cut True [Fin 0, Fin 20, Fin 50, PosInf] [0, 5 / 10, 1])
                                 inspections)
                      in Inr (map (clip_upper (Fin 5))
                                (series_add (series_add base safety_scores)
                                   inspection_scores)))))"

definition calculate_safety_score :: "env \<Rightarrow> dataframe \<Rightarrow> dataframe option \<Rightarrow> error + fval list" where
  "calculate_safety_score ev census_df sms_df =
     (let base = replicate (length (rows census_df)) (Fin 3)
      in case sms_df of
           None \<Rightarrow> Inr base
         | Some sms \<Rightarrow>
             if ''dot_number'' \<notin> set (column_names sms) then Inr base
             else
               (case df_select census_df [''dot_number''] of
                  Inl e \<Rightarrow> Inl e
                | Inr left \<Rightarrow>
                    (case df_select sms
                            ([''dot_number'', ''safety_rating'', ''total_inspections'']
                             @ map (\<lambda>(basic, w). basic_column basic) safety_basics) of
                       Inl e \<Rightarrow> Inl e
                     | Inr right \<Rightarrow>
                         (case merge_left left right ''dot_number'' of
                            Inl e \<Rightarrow> Inl e
                          | Inr merged \<Rightarrow> rating_scores ev merged base))))"

subsection \<open>\<open>FMCALeadScorer._calculate_contact_score\<close>\<close>

text \<open>
  \<open>email.str.contains(r'^[^@]+@[^@]+\.[^@]+$', regex=True)\<close> on a stripped text: one
  \<open>@\<close>, something before it, and after it a dot with something on both sides.
\<close>

definition email_matches :: "string \<Rightarrow> bool" where
  "email_matches s =
     (let name = takeWhile (\<lambda>c. c \<noteq> CHR ''@'') s;
          rest = dropWhile (\<lambda>c. c \<noteq> CHR ''@'') s
      in name \<noteq> [] \<and> rest \<noteq> [] \<and> CHR ''@'' \<notin> set (tl rest)
         \<and> CHR ''.'' \<in> set (butlast (tl (tl rest))))"

definition address_fields :: "string list" where
  "address_fields = [''phy_city'', ''phy_state'', ''phy_zip'']"

text \<open>\<open>frame.notna()\<close>, row by row, over the columns of the frame.\<close>

definition notna :: "dataframe \<Rightarrow> bool list list" where
  "notna df = map (\<lambda>r. map (\<lambda>c. r c \<noteq> Num NaN) (column_names df)) (rows df)"

text \<open>
  \<open>frame.astype(str).str.strip()\<close>: \<open>astype(str)\<close> of a frame is a frame, and a frame has
  no \<open>.str\<close> accessor (only a Series has), so the attribute lookup raises AttributeError
  whatever the frame holds.
\<close>

definition frame_str_strip :: "dataframe \<Rightarrow> error + string list list" where
  "frame_str_strip df = Inl AttributeError"

definition calculate_contact_score :: "dataframe \<Rightarrow> error + fval list" where
  "calculate_contact_score census_df =
     (let score = replicate (length (rows census_df)) (Fin 0)
      in case text_column strip census_df ''email'' of
           Inl e \<Rightarrow> Inl e
         | Inr email \<Rightarrow>
             (let email_valid = map email_matches email;
                  score = series_add score
                            (map (\<lambda>v. fmul (of_bool_f v) (Fin 2)) email_valid);
                  score = series_add score
                            (map2 (\<lambda>v t. fmul (of_bool_f (v \<and> ends_with ''.com'' t)) (Fin (5 / 10)))
                               email_valid email)
              in case text_column (filter (\<lambda>c. is_digit c)) census_df ''phone'' of
                   Inl e \<Rightarrow> Inl e
                 | Inr phone_digits \<Rightarrow>
                     (case astype_int
                             (map (\<lambda>d. pd_cut True [Fin 0, Fin 7, Fin 10, PosInf] [0, 1, 2]
                                          (Fin (of_nat (length d)))) phone_digits) of
                        Inl e \<Rightarrow> Inl e
                      | Inr phone_scores \<Rightarrow>
                          (let score = series_add score phone_scores
                           in case df_select census_df address_fields of
                                Inl e \<Rightarrow> Inl e
                              | Inr present \<Rightarrow>
                                  (case frame_str_strip present of
                                     Inl e \<Rightarrow> Inl e
                                   | Inr stripped \<Rightarrow>
                                       (let address_complete =
                                              map2 (\<lambda>ns ts. map2 (\<lambda>n t. n \<and> t \<noteq> []) ns ts)
                                                (notna present) stripped
                                        in Inr (map (clip_upper (Fin 5))
                                                  (series_add score
                                                     (map (\<lambda>bs. Fin (of_nat (length (filter id bs))))
                                                        address_complete)))))))))"

subsection \<open>\<open>FMCALeadScorer._calculate_specialization_score\<close>\<close>

definition high_value_cargo :: "(string \<times> string list) list" where
  "high_value_cargo =
     [(''hazardous_materials'',
         [''hazmat'', ''hazardous'', ''chemical'', ''explosive'', ''radioactive'']),
      (''specialized'',
         [''refrigerated'', ''reefer'', ''temperature_controlled'', ''oversized'', ''heavy_haul'']),
      (''valuable'',
         [''household_goods'', ''electronics'', ''pharmaceutical'', ''automotive'', ''machinery'']),
      (''time_sensitive'',
         [''perishable'', ''fresh_produce'', ''dairy'', ''meat'', ''bakery''])]"

text \<open>The loop over the cargo categories.\<close>

fun cargo_scores :: "string list \<Rightarrow> fval list \<Rightarrow> (string \<times> string list) list \<Rightarrow> fval list" where
  "cargo_scores cargo_carried scores [] = scores"
| "cargo_scores cargo_carried scores ((categ, keywords) # rest) =
     (let matches = map (\<lambda>t. of_bool_f (str_contains keywords t)) cargo_carried;
          scores =
            (if categ = ''hazardous_materials''
             then series_add scores (map (\<lambda>m. fmul m (Fin 2)) matches)
             else if categ = ''specialized''
             then series_add scores (map (\<lambda>m. fmul m (Fin (15 / 10))) matches)
             else if categ \<in> set [''valuable'', ''time_sensitive'']
             then series_add scores matches
             else scores)
      in cargo_scores cargo_carried scores rest)"

definition calculate_specialization_score :: "dataframe \<Rightarrow> error + fval list" where
  "calculate_specialization_score census_df =
     (case text_column lower census_df ''cargo_carried'' of
        Inl e \<Rightarrow> Inl e
      | Inr cargo_carried \<Rightarrow>
          (let scores = replicate (length (rows census_df)) (Fin 1);
               scores = cargo_scores cargo_carried scores high_value_cargo;
               scores = series_add scores
                          (map (\<lambda>t. fmul (of_bool_f (str_contains [''intermodal''] t)) (Fin (5 / 10)))
                             cargo_carried);
               scores = series_add scores
                          (map (\<lambda>t. fmul (of_bool_f (str_contains [''international''] t))
                                       (Fin (5 / 10))) cargo_carried)
           in Inr (map (clip_upper (Fin 5)) scores)))"

subsection \<open>\<open>FMCALeadScorer._calculate_recency_score\<close>\<close>

text \<open>
  With the column missing, \<open>census_df.get('add_date')\<close> is \<open>None\<close>, \<open>pd.to_datetime\<close>
  returns it, and subtracting it from a timestamp raises TypeError.
\<close>

definition calculate_recency_score :: "env \<Rightarrow> dataframe \<Rightarrow> error + fval list" where
  "calculate_recency_score ev census_df =
     (case df_get census_df ''add_date'' of
        None \<Rightarrow> Inl TypeError
      | Some add_date \<Rightarrow>
          (let days_since_registration =
                 map (\<lambda>c. case days_since ev c of None \<Rightarrow> NaN | Some d \<Rightarrow> Fin (of_int d))
                   (snd add_date);
               scores = astype_float
                          (map (pd_cut True [Fin 0, Fin 30, Fin 90, Fin 365, Fin 730, PosInf]
                                  [5, 4, 3, 2, 1]) days_since_registration)
           in Inr (map (fillna (Fin 3)) scores)))"

subsection \<open>\<open>FMCALeadScorer._calculate_all_components\<close>\<close>

text \<open>The dictionary display evaluates its six values in the order written.\<close>

definition calculate_all_components ::
  "env \<Rightarrow> dataframe \<Rightarrow> dataframe option \<Rightarrow> dataframe option
     \<Rightarrow> error + (string \<times> fval list) list" where
  "calculate_all_components ev df sms_df li_df =
     (case calculate_growth_score ev df sms_df of
        Inl e \<Rightarrow> Inl e
      | Inr growth \<Rightarrow>
     (case calculate_legitimacy_score ev df li_df of
        Inl e \<Rightarrow> Inl e
      | Inr legitimacy \<Rightarrow>
     (case calculate_safety_score ev df sms_df of
        Inl e \<Rightarrow> Inl e
      | Inr safety \<Rightarrow>
     (case calculate_contact_score df of
        Inl e \<Rightarrow> Inl e
      | Inr contact \<Rightarrow>
     (case calculate_specialization_score df of
        Inl e \<Rightarrow> Inl e
      | Inr specialization \<Rightarrow>
     (case calculate_recency_score ev df of
        Inl e \<Rightarrow> Inl e
      | Inr recency \<Rightarrow>
          Inr [(''growth_potential'', growth),
               (''legitimacy'', legitimacy),
               (''safety_compliance'', safety),
               (''contact_quality'', contact),
               (''specialization_value'', specialization),
               (''company_recency'', recency)]))))))"

subsection \<open>\<open>DataFrame.sort_values(column, ascending=False)\<close>\<close>

text \<open>
  pandas sorts one column through \<open>nargsort\<close>: the missing values are set aside, the
  others are reversed, handed to numpy's \<open>argsort\<close> of the requested kind, and the
  positions it returns are reversed again; the rows with a missing value come last. The
  kind is the default here, \<open>'quicksort'\<close>, so \<open>argsort\<close> is a parameter: numpy promises
  of it that it returns the positions of its input in an order that sorts it ascending,
  and does not promise that equal values keep their order.
\<close>

definition nargsort_descending :: "(fval list \<Rightarrow> nat list) \<Rightarrow> fval list \<Rightarrow> nat list" where
  "nargsort_descending srt items =
     (let idx = [0..<length items];
          non_nan_idx = filter (\<lambda>i. items ! i \<noteq> NaN) idx;
          nan_idx = filter (\<lambda>i. items ! i = NaN) idx;
          non_nans = map (\<lambda>i. items ! i) non_nan_idx;
          non_nans = rev non_nans;
          non_nan_idx = rev non_nan_idx;
          indexer = map (\<lambda>j. non_nan_idx ! j) (srt non_nans);
          indexer = rev indexer
      in indexer @ nan_idx)"

definition sort_values_descending ::
  "(fval list \<Rightarrow> nat list) \<Rightarrow> fval list \<Rightarrow> 'a list \<Rightarrow> 'a list" where
  "sort_values_descending srt keys rs = map (\<lambda>i. rs ! i) (nargsort_descending srt keys)"


subsection \<open>\<open>FMCALeadScorer.calculate_comprehensive_score\<close>\<close>

text \<open>The part after the components: the two new columns, then the sort.\<close>

definition tier_cell :: "fval \<Rightarrow> cell" where
  "tier_cell x = (case lead_tier_of x of None \<Rightarrow> Num NaN | Some l \<Rightarrow> Str l)"

definition score_columns :: "dataframe \<Rightarrow> pyvalue \<Rightarrow> dataframe" where
  "score_columns census_df weighted =
     (let scored_df = census_df;
          composite = as_column (length (rows scored_df)) weighted;
          scored_df = set_column scored_df ''composite_score'' numeric_dtype (map Num composite);
          lead_tier = map (\<lambda>c. case c of Num x \<Rightarrow> tier_cell x | Str t \<Rightarrow> Num NaN)
                        (snd (cells scored_df ''composite_score''))
      in set_column scored_df ''lead_tier'' object_dtype lead_tier)"

definition composite_of :: "(string \<Rightarrow> cell) \<Rightarrow> fval" where
  "composite_of r = (case r ''composite_score'' of Num x \<Rightarrow> x | Str t \<Rightarrow> NaN)"

definition sort_by_composite :: "(fval list \<Rightarrow> nat list) \<Rightarrow> dataframe \<Rightarrow> dataframe" where
  "sort_by_composite srt df =
     df \<lparr> rows := sort_values_descending srt (map composite_of (rows df)) (rows df) \<rparr>"

definition add_scores :: "env \<Rightarrow> dataframe \<Rightarrow> pyvalue \<Rightarrow> dataframe" where
  "add_scores ev census_df weighted =
     sort_by_composite (argsort ev) (score_columns census_df weighted)"

definition calculate_comprehensive_score ::
  "env \<Rightarrow> dataframe \<Rightarrow> dataframe option \<Rightarrow> dataframe option \<Rightarrow> error + dataframe" where
  "calculate_comprehensive_score ev census_df sms_df li_df =
     (case calculate_all_components ev census_df sms_df li_df of
        Inl e \<Rightarrow> Inl e
      | Inr component_scores \<Rightarrow>
          (case composite_score component_scores of
             Inl e \<Rightarrow> Inl e
           | Inr weighted \<Rightarrow> Inr (add_scores ev census_df weighted)))"

subsection \<open>\<open>FMCALeadScorer.get_scoring_summary\<close>\<close>





section \<open>CSV parser (python\_data\_functions/parsers.py)\<close>

text \<open>
  \<open>FMCSACSVParser.parse_to_dataframe\<close>. The file is its text, \<open>None\<close> when it cannot be
  opened. \<open>sniff\<close> is \<open>csv.Sniffer().sniff(sample).delimiter\<close>, which raises \<open>csv.Error\<close>
  when it finds no delimiter; \<open>read_csv\<close> is \<open>pd.read_csv\<close> with the chosen delimiter,
  giving the header and the rows. Whatever is raised inside the \<open>try\<close> is logged and raised
  again.
\<close>

record csv_table =
  header :: "string list"
  body :: "string option list list"

definition parse_to_dataframe ::
  "(string \<Rightarrow> error + string) \<Rightarrow> (string \<Rightarrow> string \<Rightarrow> error + csv_table)
     \<Rightarrow> string \<Rightarrow> string option \<Rightarrow> error + csv_table" where
  "parse_to_dataframe sniff read_csv default_delimiter file =
     (case file of
        None \<Rightarrow> Inl OSError
      | Some content \<Rightarrow>
          (let sample = take 1024 content
           in case sniff sample of
                Inl e \<Rightarrow> Inl e
              | Inr detected_delimiter \<Rightarrow>
                  (let delimiter = (if detected_delimiter \<noteq> [] then detected_delimiter
                                    else default_delimiter)
                   in case read_csv delimiter content of
                        Inl e \<Rightarrow> Inl e
                      | Inr df \<Rightarrow>
                          Inr (df \<lparr> header :=
                                     map (\<lambda>c. replace_char (CHR '' '') (CHR ''_'') (lower (strip c)))
                                       (header df) \<rparr>))))"

section \<open>Example tables\<close>

text \<open>A row from its named cells; a cell that is not named is missing.\<close>

definition row_of :: "(string \<times> cell) list \<Rightarrow> string \<Rightarrow> cell" where
  "row_of kvs name = (case map_of kvs name of None \<Rightarrow> Num NaN | Some c \<Rightarrow> c)"

definition census_columns :: "(string \<times> dtype) list" where
  "census_columns =
     [(''dot_number'', numeric_dtype), (''fleet_size'', numeric_dtype),
      (''entity_type'', object_dtype), (''carrier_operation'', object_dtype),
      (''email'', object_dtype), (''phone'', object_dtype),
      (''phy_city'', object_dtype), (''phy_state'', object_dtype), (''phy_zip'', object_dtype),
      (''cargo_carried'', object_dtype), (''add_date'', object_dtype)]"

definition carrier :: "rat \<Rightarrow> rat \<Rightarrow> string \<Rightarrow> cell" where
  "carrier dot fleet =
     row_of [(''dot_number'', Num (Fin dot)), (''fleet_size'', Num (Fin fleet)),
             (''entity_type'', Str ''CARRIER''), (''carrier_operation'', Str ''Interstate''),
             (''email'', Str ''ops@example.com''), (''phone'', Str ''(555) 123-4567''),
             (''phy_city'', Str ''Reno''), (''phy_state'', Str ''NV''), (''phy_zip'', Str ''89501''),
             (''cargo_carried'', Str ''General Freight, Hazmat''),
             (''add_date'', Str ''2024-01-15'')]"

text \<open>The census table of the specification's scenario: three carriers with fleet sizes
  0, 15 and 60, every column the scorer reads present.\<close>

definition census3 :: dataframe where
  "census3 = \<lparr> columns = census_columns, rows = [carrier 1 0, carrier 2 15, carrier 3 60] \<rparr>"

text \<open>The same table without its \<open>email\<close> column, and without its \<open>phy_zip\<close> column.\<close>

definition census_no_email :: dataframe where
  "census_no_email = census3 \<lparr> columns := filter (\<lambda>(c, t). c \<noteq> ''email'') census_columns \<rparr>"

definition census_no_zip :: dataframe where
  "census_no_zip = census3 \<lparr> columns := filter (\<lambda>(c, t). c \<noteq> ''phy_zip'') census_columns \<rparr>"



text \<open>
  Two sorts that meet what numpy promises of \<open>argsort\<close>: insertion of the positions from
  the last to the first, before the first position whose value is not smaller
  (\<open>argsort_by fle\<close>, which keeps equal values in their order, as numpy's insertion sort
  of short arrays does) or before the first whose value is greater (\<open>argsort_by flt\<close>,
  which does not).
\<close>

fun insert_by :: "(fval \<Rightarrow> fval \<Rightarrow> bool) \<Rightarrow> fval list \<Rightarrow> nat \<Rightarrow> nat list \<Rightarrow> nat list" where
  "insert_by le xs i [] = [i]"
| "insert_by le xs i (j # js) =
     (if le (xs ! i) (xs ! j) then i # j # js else j # insert_by le xs i js)"

definition argsort_by :: "(fval \<Rightarrow> fval \<Rightarrow> bool) \<Rightarrow> fval list \<Rightarrow> nat list" where
  "argsort_by le xs = foldr (insert_by le xs) [0..<length xs] []"

text \<open>An environment: no text reads as a number, every text date lies 100 days back.\<close>

definition env_stable :: env where
  "env_stable =
     \<lparr> to_float = (\<lambda>t. NaN),
       days_since = (\<lambda>c. case c of Str t \<Rightarrow> Some 100 | Num x \<Rightarrow> None),
       argsort = argsort_by fle \<rparr>"


text \<open>A sniffer that finds no delimiter in an empty sample and a comma otherwise, and a
  reader that returns an empty table.\<close>

definition sniff_comma :: "string \<Rightarrow> error + string" where
  "sniff_comma sample = (if sample = [] then Inl CsvError else Inr '','')"

definition read_nothing :: "string \<Rightarrow> string \<Rightarrow> error + csv_table" where
  "read_nothing delimiter content = Inr \<lparr> header = [], body = [] \<rparr>"

section \<open>Predicates for stating the properties\<close>


definition nonneg :: "fval \<Rightarrow> bool" where
  "nonneg x = (case x of Fin r \<Rightarrow> 0 \<le> r | _ \<Rightarrow> False)"

definition is_fin :: "fval \<Rightarrow> bool" where
  "is_fin x = (case x of Fin r \<Rightarrow> True | _ \<Rightarrow> False)"




section \<open>Properties of the arbitrage finder\<close>








section \<open>Properties of the lead scorer\<close>

subsection \<open>Series\<close>




lemma reindex_length: "length (reindex n xs) = n"
  by (induction n xs rule: reindex.induct) auto

subsection \<open>Composite score\<close>



subsection \<open>Lead tier\<close>

text \<open>
  C2, as the claim states it, fails: \<open>pd.cut\<close> closes its bins on the right, so a
  composite score of exactly 3.5 is labelled Medium Priority, not High Priority.
\<close>

theorem lead_tier_boundary_counterexample:
  "lead_tier_of (Fin (35 / 10)) = Some ''Medium Priority''
   \<and> lead_tier_of (Fin (35 / 10)) \<noteq> Some ''High Priority''"
  by (simp add: lead_tier_of_def pd_cut_def fle_def)

text \<open>
  C2, amended. The lead tier is a function of the composite score alone, with the four
  fixed cutoffs 0, 2, 3.5, 5 and each tier's upper bound inclusive: a composite score in
  (0, 2] is Low Priority, in (2, 3.5] Medium Priority, in (3.5, 5] High Priority and above 5
  Top Tier; in particular 3.5 is Medium Priority.
\<close>

theorem lead_tier_intervals:
  "(0 < c \<and> c \<le> 2 \<longrightarrow> lead_tier_of (Fin c) = Some ''Low Priority'')
   \<and> (2 < c \<and> c \<le> 35 / 10 \<longrightarrow> lead_tier_of (Fin c) = Some ''Medium Priority'')
   \<and> (35 / 10 < c \<and> c \<le> 5 \<longrightarrow> lead_tier_of (Fin c) = Some ''High Priority'')
   \<and> (5 < c \<longrightarrow> lead_tier_of (Fin c) = Some ''Top Tier'')"
  by (auto simp add: lead_tier_of_def pd_cut_def fle_def)

theorem lead_tier_intervals_witness:
  "lead_tier_of (Fin 2) = Some ''Low Priority''
   \<and> lead_tier_of (Fin 3) = Some ''Medium Priority''
   \<and> lead_tier_of (Fin 5) = Some ''High Priority''
   \<and> lead_tier_of (Fin 6) = Some ''Top Tier''"
  using lead_tier_intervals [of 2] lead_tier_intervals [of 3] lead_tier_intervals [of 5]
    lead_tier_intervals [of 6]
  by simp

subsection \<open>The order of the floats\<close>

lemma fle_refl: "a \<noteq> NaN \<Longrightarrow> fle a a"
  by (simp add: fle_def)







subsection \<open>The two insertion sorts meet the promise of \<open>argsort\<close>\<close>








subsection \<open>Sorting by composite score\<close>







subsection \<open>Contact score\<close>

lemma contact_score_never_returns: "calculate_contact_score df \<noteq> Inr scores"
  by (simp add: calculate_contact_score_def frame_str_strip_def Let_def split: sum.splits)

text \<open>
  C9. The claim says that a census table without the email, phone or address columns is
  scored with a degraded contact score. The code raises instead: without \<open>email\<close> the
  default of \<open>get\<close> is a Python string, which has no \<open>.str\<close> (AttributeError); without
  \<open>phy_zip\<close> the selection of the address columns raises KeyError; and with every column
  present the address step asks a frame for \<open>.str\<close> and raises AttributeError.
\<close>

theorem contact_score_missing_columns:
  "calculate_contact_score census_no_email = Inl AttributeError
   \<and> calculate_contact_score census_no_zip = Inl (KeyError ''phy_zip'')
   \<and> calculate_contact_score census3 = Inl AttributeError"
  by code_simp

section \<open>Properties of the CSV parser\<close>

text \<open>
  C8. The claim says that the parser falls back to the default delimiter when the
  detection fails. In the code a failed detection is the exception \<open>csv.Error\<close> of
  \<open>sniff\<close>, raised inside the \<open>try\<close> and raised again by the handler: the file is not
  parsed. The fallback is taken only for an empty detected delimiter, which \<open>sniff\<close>
  never returns.
\<close>

theorem sniff_failure_is_raised:
  "sniff (take 1024 content) = Inl e
   \<Longrightarrow> parse_to_dataframe sniff read_csv default_delimiter (Some content) = Inl e"
  by (simp add: parse_to_dataframe_def)

theorem sniff_failure_is_raised_witness:
  "sniff_comma (take 1024 '''') = Inl CsvError
   \<and> parse_to_dataframe sniff_comma read_nothing '','' (Some '''') = Inl CsvError"
  using sniff_failure_is_raised [of sniff_comma "''''" CsvError read_nothing "'',''"]
  by (simp add: sniff_comma_def)

section \<open>Ranges of the component scores\<close>

lemma nonneg_Fin [simp]: "nonneg (Fin r) = (0 \<le> r)" by (simp add: nonneg_def)
lemma is_fin_Fin [simp]: "is_fin (Fin r)" by (simp add: is_fin_def)
lemma nonneg_of_bool [simp]: "nonneg (of_bool_f b)" by (simp add: of_bool_f_def)
lemma is_fin_of_bool [simp]: "is_fin (of_bool_f b)" by (simp add: of_bool_f_def)
lemma nonneg_is_fin: "nonneg a \<Longrightarrow> is_fin a"
  by (cases a) (auto simp: nonneg_def)












lemma to_numeric_cells_length [simp]:
  "length (to_numeric f (cells df name)) = length (rows df)"
  by (simp add: to_numeric_def cells_def)






























section \<open>Scoring without the enrichment tables\<close>

lemma absent_enrichment_falls_back:
  assumes "no_enrichment sms_df" and "no_enrichment li_df"
  shows "calculate_safety_score ev census_df sms_df = Inr (replicate (length (rows census_df)) (Fin 3))"
    and "calculate_growth_score ev census_df sms_df = fleet_scores ev census_df"
    and "calculate_legitimacy_score ev census_df li_df =
           (case base_scores census_df of
              Inl e \<Rightarrow> Inl e
            | Inr base \<Rightarrow> Inr (map (clip (Fin 0) (Fin 5)) base))"
  using assms
  by (auto simp: calculate_safety_score_def calculate_growth_score_def
      calculate_legitimacy_score_def no_enrichment_def Let_def split: option.splits sum.splits)

lemma all_components_never_return:
  "calculate_all_components ev df sms_df li_df \<noteq> Inr component_scores"
  using contact_score_never_returns
  by (auto simp: calculate_all_components_def split: sum.splits)

lemma scoring_never_returns: "calculate_comprehensive_score ev df sms_df li_df \<noteq> Inr scored"
  using all_components_never_return
  by (auto simp: calculate_comprehensive_score_def split: sum.splits)

text \<open>
  C5. The claim says that scoring never raises when the optional tables are absent and
  that the dependent components fall back to their base values. On the specification's
  census table, with both tables absent, growth is the fleet-size bin alone, legitimacy
  the clamped entity-type base and safety 3 in every row, as the claim says; but scoring
  as a whole raises AttributeError, in the contact score.
\<close>

theorem scoring_without_enrichment_raises:
  "calculate_growth_score env_stable census3 None = Inr [Fin 0, Fin 3, Fin 5]
   \<and> calculate_legitimacy_score env_stable census3 None = Inr [Fin 4, Fin 4, Fin 4]
   \<and> calculate_safety_score env_stable census3 None = Inr [Fin 3, Fin 3, Fin 3]
   \<and> calculate_comprehensive_score env_stable census3 None None = Inl AttributeError"
proof -
  have "calculate_growth_score env_stable census3 None = Inr [Fin 0, Fin 3, Fin 5]"
    by code_simp
  moreover have "calculate_legitimacy_score env_stable census3 None = Inr [Fin 4, Fin 4, Fin 4]"
    by code_simp
  moreover have "calculate_safety_score env_stable census3 None = Inr [Fin 3, Fin 3, Fin 3]"
    by code_simp
  moreover have "calculate_all_components env_stable census3 None None = Inl AttributeError"
    by code_simp
  then have "calculate_comprehensive_score env_stable census3 None None = Inl AttributeError"
    by (simp add: calculate_comprehensive_score_def)
  ultimately show ?thesis by blast
qed

section \<open>Scoring summary\<close>

lemma set_cells_length: "length (set_cells name rs vs) = length rs"
  by (induction name rs vs rule: set_cells.induct) auto












end
